theory Spec2Isabelle
  imports Complex_Main
begin

section \<open>Hand-gesture music: the gesture-to-note pipeline of app.js\<close>

text \<open>
  The development embeds the numeric core of \<^verbatim>\<open>src/app.js\<close> (finger geometry, motion
  detection, height-to-pitch mapping) and the playback controller that drives the
  synthesizer handle.

  Conventions of the embedding.
  \<^item> JavaScript numbers are taken as exact reals: the finite values of the tracker, with
    no rounding, no NaN and no infinity. \<^verbatim>\<open>Math.pow(v, 2)\<close> is \<open>v\<^sup>2\<close>, \<^verbatim>\<open>Math.sqrt\<close> is
    \<open>sqrt\<close>, \<^verbatim>\<open>Math.abs\<close> is \<open>\<bar>v\<bar>\<close>, \<^verbatim>\<open>Math.floor\<close> is \<open>\<lfloor>v\<rfloor>\<close>.
  \<^item> Reading a property of \<^verbatim>\<open>undefined\<close> (an array read past the end followed by a field
    access) throws a TypeError in JavaScript; the model returns \<open>Inl TypeError\<close>.
  \<^item> The fields \<^verbatim>\<open>x\<close>, \<^verbatim>\<open>y\<close>, \<^verbatim>\<open>z\<close> of a landmark are \<open>lmX\<close>, \<open>lmY\<close>, \<open>lmZ\<close>; the
    fields \<^verbatim>\<open>x\<close>, \<^verbatim>\<open>y\<close>, \<^verbatim>\<open>z\<close> of a finger position are \<open>tipX\<close>, \<open>tipY\<close>, \<open>tipZ\<close>.
  \<^item> Canvas drawing, button state and console output have no influence on the values
    studied here and are left out.
\<close>

subsection \<open>Data\<close>

datatype js_error = TypeError | SynthError

record landmark =
  lmX :: real
  lmY :: real
  lmZ :: real

record finger =
  tipX :: real
  tipY :: real
  tipZ :: real
  relativeX :: real
  relativeY :: real
  relativeZ :: real
  extension :: real
  height :: real

type_synonym note_name = string

text \<open>The table \<^verbatim>\<open>scales\<close> and the variable \<^verbatim>\<open>currentScale\<close>, which is initialised to
  \<^verbatim>\<open>scales.cMajor\<close> and assigned nowhere else.\<close>

definition cMajor :: "note_name list" where
  "cMajor = [''C4'', ''D4'', ''E4'', ''F4'', ''G4'', ''A4'', ''B4'', ''C5'']"

definition gMajor :: "note_name list" where
  "gMajor = [''G3'', ''A3'', ''B3'', ''C4'', ''D4'', ''E4'', ''F#4'', ''G4'']"

definition fMajor :: "note_name list" where
  "fMajor = [''F3'', ''G3'', ''A3'', ''Bb3'', ''C4'', ''D4'', ''E4'', ''F4'']"

definition dMinor :: "note_name list" where
  "dMinor = [''D3'', ''E3'', ''F3'', ''G3'', ''A3'', ''Bb3'', ''C4'', ''D4'']"

definition aMinor :: "note_name list" where
  "aMinor = [''A3'', ''B3'', ''C4'', ''D4'', ''E4'', ''F4'', ''G4'', ''A4'']"

definition currentScale :: "note_name list" where
  "currentScale = cMajor"

subsection \<open>calculateFingerPositions\<close>

definition fingerTips :: "nat list" where
  "fingerTips = [4, 8, 12, 16, 20]"

definition fingerBases :: "nat list" where
  "fingerBases = [2, 5, 9, 13, 17]"

definition wristIndex :: nat where
  "wristIndex = 0"

text \<open>One iteration of the loop body: the finger record built from the tip, base and wrist
  landmarks.\<close>

definition fingerPosition :: "landmark \<Rightarrow> landmark \<Rightarrow> landmark \<Rightarrow> finger" where
  "fingerPosition tip base wrist =
     \<lparr> tipX = lmX tip, tipY = lmY tip, tipZ = lmZ tip,
       relativeX = lmX tip - lmX wrist,
       relativeY = lmY tip - lmY wrist,
       relativeZ = lmZ tip - lmZ wrist,
       extension = sqrt ((lmX tip - lmX base)\<^sup>2 + (lmY tip - lmY base)\<^sup>2 + (lmZ tip - lmZ base)\<^sup>2),
       height = 1 - lmY tip \<rparr>"

text \<open>The loop \<^verbatim>\<open>for (let i = 0; i < 5; i++)\<close>, with \<open>positions\<close> the array built so far.\<close>

function positionsLoop :: "landmark list \<Rightarrow> nat \<Rightarrow> finger list \<Rightarrow> js_error + finger list" where
  "positionsLoop landmarks i positions =
     (if i < 5 then
        (let t = fingerTips ! i; b = fingerBases ! i in
         if t < length landmarks \<and> b < length landmarks \<and> wristIndex < length landmarks
         then positionsLoop landmarks (Suc i)
                (positions @ [fingerPosition (landmarks ! t) (landmarks ! b) (landmarks ! wristIndex)])
         else Inl TypeError)
      else Inr positions)"
  by pat_completeness auto
termination
  by (relation "measure (\<lambda>(landmarks, i, positions). 5 - i)") auto

definition calculateFingerPositions :: "landmark list \<Rightarrow> js_error + finger list" where
  "calculateFingerPositions landmarks = positionsLoop landmarks 0 []"

subsection \<open>detectFingerMovement and isPalmMovingSignificantly\<close>

text \<open>The displacement of a finger tip between two frames. The source writes this square
  root out three times (in the detector, in the palm test and in the debug display).\<close>

definition tipMovement :: "finger \<Rightarrow> finger \<Rightarrow> real" where
  "tipMovement current lastPos =
     sqrt ((tipX current - tipX lastPos)\<^sup>2 + (tipY current - tipY lastPos)\<^sup>2 + (tipZ current - tipZ lastPos)\<^sup>2)"

definition extensionChange :: "finger \<Rightarrow> finger \<Rightarrow> real" where
  "extensionChange current lastPos = \<bar>extension current - extension lastPos\<bar>"

definition movementThreshold :: real where
  "movementThreshold = 0.015"

definition palmMovementThreshold :: real where
  "palmMovementThreshold = 0.02"

text \<open>The loop \<^verbatim>\<open>for (const i of fingerBases)\<close> of the palm test, over the local array
  \<^verbatim>\<open>[0, 1, 2, 3, 4]\<close>, accumulating \<open>totalMovement\<close>.\<close>

fun palmLoop :: "finger list \<Rightarrow> finger list \<Rightarrow> nat list \<Rightarrow> real \<Rightarrow> js_error + real" where
  "palmLoop currentPositions lastPositions [] totalMovement = Inr totalMovement"
| "palmLoop currentPositions lastPositions (i # rest) totalMovement =
     (if i < length currentPositions \<and> i < length lastPositions
      then palmLoop currentPositions lastPositions rest
             (totalMovement + tipMovement (currentPositions ! i) (lastPositions ! i))
      else Inl TypeError)"

definition isPalmMovingSignificantly :: "finger list \<Rightarrow> finger list \<Rightarrow> js_error + bool" where
  "isPalmMovingSignificantly currentPositions lastPositions =
     (let palmBases = [0, 1, 2, 3, 4] in
      case palmLoop currentPositions lastPositions palmBases 0 of
        Inl e \<Rightarrow> Inl e
      | Inr totalMovement \<Rightarrow>
          Inr (totalMovement / real (length palmBases) > palmMovementThreshold))"

text \<open>The loop \<^verbatim>\<open>for (let i = 0; i < 5; i++)\<close> of the detector, with \<open>movedFingers\<close> the
  array built so far. The palm test is evaluated only for a finger that passed the first
  test, as in the source.\<close>

function detectLoop :: "finger list \<Rightarrow> finger list \<Rightarrow> nat \<Rightarrow> nat list \<Rightarrow> js_error + nat list" where
  "detectLoop currentPositions lastPositions i movedFingers =
     (if i < 5 then
        (if i < length currentPositions \<and> i < length lastPositions then
           (let current = currentPositions ! i; lastPos = lastPositions ! i in
            if extensionChange current lastPos > movementThreshold * 0.8
               \<or> tipMovement current lastPos > movementThreshold
            then
              (case isPalmMovingSignificantly currentPositions lastPositions of
                 Inl e \<Rightarrow> Inl e
               | Inr isPalmMovement \<Rightarrow>
                   if \<not> isPalmMovement \<or> extensionChange current lastPos > movementThreshold * 1.5
                   then detectLoop currentPositions lastPositions (Suc i) (movedFingers @ [i])
                   else detectLoop currentPositions lastPositions (Suc i) movedFingers)
            else detectLoop currentPositions lastPositions (Suc i) movedFingers)
         else Inl TypeError)
      else Inr movedFingers)"
  by pat_completeness auto
termination
  by (relation "measure (\<lambda>(currentPositions, lastPositions, i, movedFingers). 5 - i)") auto

definition detectFingerMovement :: "finger list \<Rightarrow> finger list \<Rightarrow> js_error + nat list" where
  "detectFingerMovement currentPositions lastPositions =
     detectLoop currentPositions lastPositions 0 []"

subsection \<open>The height-to-pitch mapping inside playNotesForFingers\<close>

definition noteIndex :: "note_name list \<Rightarrow> real \<Rightarrow> int" where
  "noteIndex scale h = \<lfloor>h * real (length scale)\<rfloor>"

definition clampedNoteIndex :: "note_name list \<Rightarrow> real \<Rightarrow> int" where
  "clampedNoteIndex scale h = max 0 (min (int (length scale) - 1) (noteIndex scale h))"

text \<open>The read \<^verbatim>\<open>currentScale[clampedNoteIndex]\<close>. For a non-empty scale the index is
  inside the array (lemma \<open>clampedNoteIndex_bounds\<close> below), so the read never yields
  \<^verbatim>\<open>undefined\<close>; the scales of the table all have eight notes.\<close>

definition scaleNote :: "note_name list \<Rightarrow> real \<Rightarrow> note_name" where
  "scaleNote scale h = scale ! nat (clampedNoteIndex scale h)"

text \<open>The loop \<^verbatim>\<open>for (const fingerIndex of movedFingers)\<close>, with \<open>notesToPlay\<close> the array
  built so far. A finger index outside \<open>fingerPositions\<close> makes \<^verbatim>\<open>position.height\<close> throw.\<close>

fun notesLoop :: "nat list \<Rightarrow> finger list \<Rightarrow> note_name list \<Rightarrow> js_error + note_name list" where
  "notesLoop [] fingerPositions notesToPlay = Inr notesToPlay"
| "notesLoop (fingerIndex # rest) fingerPositions notesToPlay =
     (if fingerIndex < length fingerPositions
      then notesLoop rest fingerPositions
             (notesToPlay @ [scaleNote currentScale (height (fingerPositions ! fingerIndex))])
      else Inl TypeError)"

subsection \<open>The synthesizer handle and the program state\<close>

text \<open>
  The synthesizer object comes from the audio library, which is not part of the
  repository. The program probes it for methods (\<^verbatim>\<open>if (synth.releaseAll)\<close>,
  \<^verbatim>\<open>synth.triggerAttack && !synth.triggerAttackRelease\<close>), so a handle is modelled by the
  methods it offers. Two further fields say whether its two note-start methods throw when
  called, and \<open>polyphonic\<close> says whether the voice can sound several notes at once; the
  program can read none of these three. The release and dispose methods are taken not to
  throw: the source guards only the start of notes with \<^verbatim>\<open>try\<close>/\<^verbatim>\<open>catch\<close>.
\<close>

record handle =
  has_releaseAll :: bool
  has_triggerRelease :: bool
  has_triggerAttack :: bool
  has_triggerAttackRelease :: bool
  has_dispose :: bool
  triggerAttack_throws :: bool
  triggerAttackRelease_throws :: bool
  polyphonic :: bool

text \<open>The argument of a note-start call: one note name or an array of note names.\<close>

datatype note_arg = One note_name | Many "note_name list"

text \<open>The calls that reached the synthesizer and took effect, oldest first.\<close>

datatype synth_call =
    ReleaseAll
  | TriggerRelease
  | TriggerAttack note_arg
  | TriggerAttackRelease note_arg string
  | Dispose

text \<open>The callbacks handed to \<^verbatim>\<open>setTimeout\<close>: the deferred start of \<open>notesToPlay\<close> (10 ms),
  the automatic release of a bass note (800 ms) and the test note of a new instrument
  (500 ms), which captures \<open>selectedInstrument\<close>.\<close>

datatype timer =
    PlayNotes "note_name list"
  | AutoRelease
  | TestNote string

text \<open>The global variables of the program, the value of the instrument selector, the calls
  made on the synthesizer so far and the callbacks handed to \<^verbatim>\<open>setTimeout\<close> (both
  oldest first). The functions of the program only add to \<open>scheduled\<close>; a callback leaves
  the list when it runs as an event of a session (\<open>step\<close> below).\<close>

record app_state =
  synth :: "handle option"
  isPlaying :: bool
  lastNoteTime :: real
  currentNotes :: "note_name list"
  lastFingerPositions :: "finger list option"
  instrumentSelect :: string
  calls :: "synth_call list"
  scheduled :: "timer list"

definition initialState :: "string \<Rightarrow> app_state" where
  "initialState selected =
     \<lparr> synth = None, isPlaying = False, lastNoteTime = 0, currentNotes = [],
       lastFingerPositions = None, instrumentSelect = selected, calls = [], scheduled = [] \<rparr>"

definition record_call :: "synth_call \<Rightarrow> app_state \<Rightarrow> app_state" where
  "record_call c s = s\<lparr>calls := calls s @ [c]\<rparr>"

definition setTimeout :: "timer \<Rightarrow> app_state \<Rightarrow> app_state" where
  "setTimeout t s = s\<lparr>scheduled := scheduled s @ [t]\<rparr>"

text \<open>The probe \<^verbatim>\<open>if (synth.releaseAll) synth.releaseAll(); else if (synth.triggerRelease)
  synth.triggerRelease();\<close>, which the source repeats in changeInstrument, onHandResults
  and playNotesForFingers.\<close>

definition releaseNotes :: "handle \<Rightarrow> app_state \<Rightarrow> app_state" where
  "releaseNotes h s =
     (if has_releaseAll h then record_call ReleaseAll s
      else if has_triggerRelease h then record_call TriggerRelease s
      else s)"

text \<open>\<^verbatim>\<open>synth.triggerAttack(arg)\<close>, called only after the method was found to exist.\<close>

definition call_triggerAttack :: "handle \<Rightarrow> note_arg \<Rightarrow> app_state \<Rightarrow> js_error + app_state" where
  "call_triggerAttack h arg s =
     (if triggerAttack_throws h then Inl SynthError else Inr (record_call (TriggerAttack arg) s))"

text \<open>\<^verbatim>\<open>synth.triggerAttackRelease(arg, duration)\<close>, called without a probe: calling a missing
  method throws a TypeError.\<close>

definition call_triggerAttackRelease ::
  "handle \<Rightarrow> note_arg \<Rightarrow> string \<Rightarrow> app_state \<Rightarrow> js_error + app_state" where
  "call_triggerAttackRelease h arg duration s =
     (if \<not> has_triggerAttackRelease h then Inl TypeError
      else if triggerAttackRelease_throws h then Inl SynthError
      else Inr (record_call (TriggerAttackRelease arg duration) s))"

subsection \<open>stopCamera and changeInstrument\<close>

text \<open>stopCamera calls \<^verbatim>\<open>synth.releaseAll()\<close> without a probe and assigns neither
  \<open>isPlaying\<close> nor \<open>currentNotes\<close>.\<close>

definition stopCamera :: "app_state \<Rightarrow> js_error option \<times> app_state" where
  "stopCamera s =
     (case synth s of
        None \<Rightarrow> (None, s)
      | Some h \<Rightarrow>
          if has_releaseAll h then (None, record_call ReleaseAll s) else (Some TypeError, s))"

text \<open>changeInstrument. The table \<^verbatim>\<open>instruments\<close> builds library objects, so the result of
  \<^verbatim>\<open>instruments[selectedInstrument].create()\<close> is the parameter \<open>create\<close> (an error when
  the key is missing or the constructor throws) and the object built in the
  \<^verbatim>\<open>catch\<close> branch is the parameter \<open>fallback\<close>.\<close>

definition changeInstrument ::
  "(string \<Rightarrow> js_error + handle) \<Rightarrow> handle \<Rightarrow> app_state \<Rightarrow> app_state" where
  "changeInstrument create fallback s =
     (let selectedInstrument = instrumentSelect s;
          s1 = (case synth s of
                  None \<Rightarrow> s
                | Some h \<Rightarrow>
                    (let s' = releaseNotes h s in
                     if has_dispose h then record_call Dispose s' else s'));
          s2 = s1\<lparr>isPlaying := False, currentNotes := []\<rparr>
      in case create selectedInstrument of
           Inr h \<Rightarrow> setTimeout (TestNote selectedInstrument) (s2\<lparr>synth := Some h\<rparr>)
         | Inl e \<Rightarrow> s2\<lparr>synth := Some fallback\<rparr>)"

subsection \<open>playNotesForFingers and its timers\<close>

text \<open>The synchronous part: release what is recorded as sounding, compute \<open>notesToPlay\<close>,
  and defer the start by 10 ms. An exception of the note loop leaves the release done.\<close>

definition playNotesForFingers ::
  "nat list \<Rightarrow> finger list \<Rightarrow> app_state \<Rightarrow> js_error option \<times> app_state" where
  "playNotesForFingers movedFingers fingerPositions s =
     (let s1 = (case synth s of
                  None \<Rightarrow> s
                | Some h \<Rightarrow>
                    if currentNotes s \<noteq> [] then (releaseNotes h s)\<lparr>currentNotes := []\<rparr> else s)
      in case notesLoop movedFingers fingerPositions [] of
           Inl e \<Rightarrow> (Some e, s1)
         | Inr notesToPlay \<Rightarrow>
             if notesToPlay \<noteq> [] \<and> synth s1 \<noteq> None
             then (None, setTimeout (PlayNotes notesToPlay) s1)
             else (None, s1))"

text \<open>The body of the outer \<^verbatim>\<open>try\<close> up to the first statement that can throw: the probe
  for the kind of synthesizer and the start of the notes. The timer exists only for a
  non-empty \<open>notesToPlay\<close>, so \<^verbatim>\<open>notesToPlay[0]\<close> is its head.\<close>

definition startNotes :: "handle \<Rightarrow> note_name list \<Rightarrow> app_state \<Rightarrow> js_error + app_state" where
  "startNotes h notesToPlay s =
     (if has_triggerAttack h \<and> \<not> has_triggerAttackRelease h
      then call_triggerAttack h (Many notesToPlay) s
      else if has_triggerAttack h
      then call_triggerAttack h (One (hd notesToPlay)) s
      else Inr s)"

text \<open>The inner \<^verbatim>\<open>try\<close> of the \<^verbatim>\<open>catch\<close> branch.\<close>

definition fallbackStart :: "handle \<Rightarrow> note_name list \<Rightarrow> app_state \<Rightarrow> js_error + app_state" where
  "fallbackStart h notesToPlay s =
     (if length notesToPlay = 1
      then call_triggerAttackRelease h (One (hd notesToPlay)) ''8n'' s
      else call_triggerAttackRelease h (Many notesToPlay) ''8n'' s)"

text \<open>The callback of the 10 ms timer. It reads the global \<open>synth\<close> when it runs; a missing
  synthesizer makes both \<^verbatim>\<open>try\<close> blocks throw, and both exceptions are caught. The result
  pairs the state with the exception that leaves the callback, if any.\<close>

definition playTimer :: "note_name list \<Rightarrow> app_state \<Rightarrow> js_error option \<times> app_state" where
  "playTimer notesToPlay s =
     (case synth s of
        None \<Rightarrow> (None, s)
      | Some h \<Rightarrow>
          (case startNotes h notesToPlay s of
             Inr s1 \<Rightarrow>
               (let s2 = s1\<lparr>currentNotes := notesToPlay, isPlaying := True\<rparr>
                in if instrumentSelect s2 = ''bass''
                   then (None, setTimeout AutoRelease s2)
                   else (None, s2))
           | Inl error \<Rightarrow>
               (case fallbackStart h notesToPlay s of
                  Inr s1 \<Rightarrow> (None, s1)
                | Inl fallbackError \<Rightarrow> (None, s))))"

text \<open>The callback of the 800 ms timer.\<close>

definition autoReleaseTimer :: "app_state \<Rightarrow> app_state" where
  "autoReleaseTimer s =
     (case synth s of
        None \<Rightarrow> s
      | Some h \<Rightarrow>
          if has_triggerRelease h \<and> isPlaying s then record_call TriggerRelease s else s)"

text \<open>The callback of the 500 ms timer of changeInstrument; \<open>running\<close> is the test
  \<^verbatim>\<open>Tone.context.state === 'running'\<close>. When the test note fails, the source plays it on a
  separate temporary synthesizer, which is not the handle whose calls are recorded.\<close>

definition testNoteTimer :: "bool \<Rightarrow> string \<Rightarrow> app_state \<Rightarrow> app_state" where
  "testNoteTimer running selectedInstrument s =
     (if running then
        (case synth s of
           None \<Rightarrow> s
         | Some h \<Rightarrow>
             (case call_triggerAttackRelease h
                     (if selectedInstrument = ''bass'' then One ''C3''
                      else Many [''C4'', ''E4'', ''G4'']) ''8n'' s of
                Inr s1 \<Rightarrow> s1
              | Inl e \<Rightarrow> s))
      else s)"

definition runTimer :: "bool \<Rightarrow> timer \<Rightarrow> app_state \<Rightarrow> js_error option \<times> app_state" where
  "runTimer running t s =
     (case t of
        PlayNotes notesToPlay \<Rightarrow> playTimer notesToPlay s
      | AutoRelease \<Rightarrow> (None, autoReleaseTimer s)
      | TestNote selectedInstrument \<Rightarrow> (None, testNoteTimer running selectedInstrument s))"

subsection \<open>The frame callback\<close>

text \<open>A frame carries the hands found by the tracker (\<^verbatim>\<open>results.multiHandLandmarks\<close>, empty
  when it is missing or has no hand) and the two readings of \<^verbatim>\<open>Tone.now()\<close> that the frame
  makes: \<open>now1\<close> in the guard and \<open>now2\<close> when the trigger time is stored.\<close>

record frame =
  multiHandLandmarks :: "landmark list list"
  now1 :: real
  now2 :: real

definition playMusicFromHandPosition ::
  "landmark list \<Rightarrow> real \<Rightarrow> real \<Rightarrow> app_state \<Rightarrow> js_error option \<times> app_state" where
  "playMusicFromHandPosition landmarks t1 t2 s =
     (case calculateFingerPositions landmarks of
        Inl e \<Rightarrow> (Some e, s)
      | Inr fingerPositions \<Rightarrow>
          (case lastFingerPositions s of
             None \<Rightarrow> (None, s\<lparr>lastFingerPositions := Some fingerPositions\<rparr>)
           | Some lastPositions \<Rightarrow>
               (case detectFingerMovement fingerPositions lastPositions of
                  Inl e \<Rightarrow> (Some e, s)
                | Inr movedFingers \<Rightarrow>
                    if length movedFingers > 0 \<and> t1 - lastNoteTime s > 0.1
                    then (case playNotesForFingers movedFingers fingerPositions s of
                            (Some e, s1) \<Rightarrow> (Some e, s1)
                          | (None, s1) \<Rightarrow>
                              (None, s1\<lparr>lastNoteTime := t2,
                                        lastFingerPositions := Some fingerPositions\<rparr>))
                    else (None, s\<lparr>lastFingerPositions := Some fingerPositions\<rparr>))))"

text \<open>The branch of onHandResults taken when no hand is reported.\<close>

definition noHandDetected :: "app_state \<Rightarrow> app_state" where
  "noHandDetected s =
     (case synth s of
        None \<Rightarrow> s
      | Some h \<Rightarrow>
          if isPlaying s then (releaseNotes h s)\<lparr>isPlaying := False, currentNotes := []\<rparr>
          else s)"

definition onHandResults :: "frame \<Rightarrow> app_state \<Rightarrow> js_error option \<times> app_state" where
  "onHandResults results s =
     (if length (multiHandLandmarks results) > 0
      then playMusicFromHandPosition (multiHandLandmarks results ! 0) (now1 results) (now2 results) s
      else (None, noHandDetected s))"

subsection \<open>Auxiliary definitions for the statements\<close>

text \<open>The two tests of the detector for finger \<open>i\<close>, given the outcome \<open>p\<close> of the palm test:
  the finger passes the first test, and it is not vetoed.\<close>

definition reported :: "finger list \<Rightarrow> finger list \<Rightarrow> bool \<Rightarrow> nat \<Rightarrow> bool" where
  "reported c l p i \<longleftrightarrow>
     (extensionChange (c ! i) (l ! i) > movementThreshold * 0.8
      \<or> tipMovement (c ! i) (l ! i) > movementThreshold)
     \<and> (\<not> p \<or> extensionChange (c ! i) (l ! i) > movementThreshold * 1.5)"

text \<open>Concrete frames. \<open>frame1\<close> has five fingers at rest; in \<open>frame2\<close> the index finger has
  risen by 0.05 and stretched; in \<open>shiftedFrame\<close> the whole hand has risen by 0.03 while the
  index finger stretched a little and the middle finger a lot.\<close>

definition restingFinger :: finger where
  "restingFinger =
     \<lparr> tipX = 0.5, tipY = 0.5, tipZ = 0, relativeX = 0.1, relativeY = -0.3, relativeZ = 0,
       extension = 0.1, height = 0.5 \<rparr>"

definition frame1 :: "finger list" where
  "frame1 = replicate 5 restingFinger"

definition frame2 :: "finger list" where
  "frame2 = frame1[1 := restingFinger\<lparr>tipY := 0.45, relativeY := -0.35, extension := 0.2, height := 0.55\<rparr>]"

definition shiftedFinger :: "real \<Rightarrow> finger" where
  "shiftedFinger e = restingFinger\<lparr>tipY := 0.47, relativeY := -0.33, extension := e, height := 0.53\<rparr>"

definition shiftedFrame :: "finger list" where
  "shiftedFrame =
     [shiftedFinger 0.1, shiftedFinger 0.12, shiftedFinger 0.2, shiftedFinger 0.1, shiftedFinger 0.1]"

text \<open>The calls that the release probe makes on a handle, and the calls that the start of
  \<open>notesToPlay\<close> makes on a handle whose start does not throw (lemmas
  \<open>releaseNotes_calls\<close> and \<open>playTimer_started\<close> tie them to the program).\<close>

definition releaseCalls :: "handle \<Rightarrow> synth_call list" where
  "releaseCalls h =
     (if has_releaseAll h then [ReleaseAll]
      else if has_triggerRelease h then [TriggerRelease]
      else [])"

definition startCalls :: "handle \<Rightarrow> note_name list \<Rightarrow> synth_call list" where
  "startCalls h notesToPlay =
     (if has_triggerAttack h \<and> \<not> has_triggerAttackRelease h then [TriggerAttack (Many notesToPlay)]
      else if has_triggerAttack h then [TriggerAttack (One (hd notesToPlay))]
      else [])"

text \<open>The events of a session: the instrument is changed (from the selector, or when the
  camera starts), the camera is stopped, the tracker delivers a frame, or a callback
  handed to \<^verbatim>\<open>setTimeout\<close> runs. An instrument change carries the selected name and the
  two parameters of changeInstrument; a callback carries the test
  \<^verbatim>\<open>Tone.context.state === 'running'\<close>. A callback runs only while it is pending, and
  it leaves the pending list when it runs. An exception of one event does not keep the
  next one from running.\<close>

datatype event =
    InstrumentChange string "string \<Rightarrow> js_error + handle" handle
  | CameraStop
  | FrameResult frame
  | TimerFires bool timer

fun step :: "event \<Rightarrow> app_state \<Rightarrow> app_state" where
  "step (InstrumentChange selected create fallback) s =
     changeInstrument create fallback (s\<lparr>instrumentSelect := selected\<rparr>)"
| "step CameraStop s = snd (stopCamera s)"
| "step (FrameResult results) s = snd (onHandResults results s)"
| "step (TimerFires running t) s =
     (if t \<in> set (scheduled s)
      then snd (runTimer running t (s\<lparr>scheduled := remove1 t (scheduled s)\<rparr>))
      else s)"

fun runEvents :: "event list \<Rightarrow> app_state \<Rightarrow> app_state" where
  "runEvents [] s = s"
| "runEvents (e # rest) s = runEvents rest (step e s)"

text \<open>The states the program can be in: it starts with no synthesizer, and every event
  leads from a state it can be in to another one.\<close>

inductive reachable :: "app_state \<Rightarrow> bool" where
  start: "reachable (initialState selected)"
| after: "reachable s \<Longrightarrow> reachable (step e s)"



definition wellFormed :: "app_state \<Rightarrow> bool" where
  "wellFormed s \<longleftrightarrow>
     (isPlaying s \<longrightarrow> synth s \<noteq> None) \<and>
     (\<forall>t\<in>set (scheduled s). case t of PlayNotes notesToPlay \<Rightarrow> notesToPlay \<noteq> [] | _ \<Rightarrow> True)"

text \<open>Concrete handles, with the methods the source itself relies on. A polyphonic voice
  (the instruments \<^verbatim>\<open>synth\<close>, \<^verbatim>\<open>marimba\<close>, \<^verbatim>\<open>guitar\<close>): stopCamera calls its
  \<^verbatim>\<open>releaseAll\<close> and changeInstrument plays its test chord with
  \<^verbatim>\<open>triggerAttackRelease(["C4", "E4", "G4"], "8n")\<close>. A monophonic voice (the instrument
  \<^verbatim>\<open>bass\<close>): the source releases it with \<^verbatim>\<open>triggerRelease\<close> and tests it with
  \<^verbatim>\<open>triggerAttackRelease("C3", "8n")\<close>. \<open>failingHandle\<close> is a polyphonic voice whose
  \<^verbatim>\<open>triggerAttack\<close> throws.\<close>

definition polySynthHandle :: handle where
  "polySynthHandle =
     \<lparr> has_releaseAll = True, has_triggerRelease = True, has_triggerAttack = True,
       has_triggerAttackRelease = True, has_dispose = True,
       triggerAttack_throws = False, triggerAttackRelease_throws = False, polyphonic = True \<rparr>"

definition monoSynthHandle :: handle where
  "monoSynthHandle =
     \<lparr> has_releaseAll = False, has_triggerRelease = True, has_triggerAttack = True,
       has_triggerAttackRelease = True, has_dispose = True,
       triggerAttack_throws = False, triggerAttackRelease_throws = False, polyphonic = False \<rparr>"

definition failingHandle :: handle where
  "failingHandle = polySynthHandle\<lparr>triggerAttack_throws := True\<rparr>"

text \<open>Concrete states: a synthesizer is present and silent (\<open>readyState\<close>); the note C4 is
  recorded as sounding (\<open>soundingState\<close>); the state after playNotesForFingers was called
  in \<open>soundingState\<close> for the index finger of \<open>frame2\<close> (\<open>afterCall\<close>); and a sounding state
  that has seen \<open>frame1\<close> and triggered its last note at time 1 (\<open>trackedState\<close>).\<close>

definition readyState :: "handle \<Rightarrow> string \<Rightarrow> app_state" where
  "readyState h selected = (initialState selected)\<lparr>synth := Some h\<rparr>"

definition soundingState :: "handle \<Rightarrow> string \<Rightarrow> app_state" where
  "soundingState h selected = (readyState h selected)\<lparr>isPlaying := True, currentNotes := [''C4'']\<rparr>"

definition afterCall :: "handle \<Rightarrow> app_state" where
  "afterCall h = snd (playNotesForFingers [1] frame2 (soundingState h ''synth''))"

definition trackedState :: app_state where
  "trackedState =
     (soundingState polySynthHandle ''synth'')\<lparr>lastNoteTime := 1, lastFingerPositions := Some frame1\<rparr>"


definition stillLandmarks :: "landmark list" where
  "stillLandmarks = replicate 21 \<lparr> lmX = 0.5, lmY = 0.5, lmZ = 0 \<rparr>"

definition curledFinger :: finger where
  "curledFinger =
     \<lparr> tipX = 0.5, tipY = 0.5, tipZ = 0, relativeX = 0, relativeY = 0, relativeZ = 0,
       extension = 0, height = 0.5 \<rparr>"

text \<open>A concrete session. The hand of \<open>stillLandmarks\<close> is seen, then the same hand with
  the index tip (landmark 8) raised by 0.05, which gives \<open>liftedFinger\<close> at index 1, then
  the first hand again. \<open>beforeRun\<close> creates the polyphonic voice, lets its test chord play,
  and delivers the three frames one second apart, with the deferred start of the second
  frame run before the third arrives; \<open>pendingState\<close> is the state it leads to.
  \<open>bassSounding\<close> is a bass voice with a note sounding and its automatic release
  pending.\<close>

definition handFrame :: "landmark list \<Rightarrow> real \<Rightarrow> frame" where
  "handFrame landmarks t = \<lparr> multiHandLandmarks = [landmarks], now1 = t, now2 = t \<rparr>"

definition liftedLandmarks :: "landmark list" where
  "liftedLandmarks = stillLandmarks[8 := \<lparr> lmX = 0.5, lmY = 0.45, lmZ = 0 \<rparr>]"


definition polyCreate :: "string \<Rightarrow> js_error + handle" where
  "polyCreate selected = Inr polySynthHandle"

definition beforeRun :: "event list" where
  "beforeRun =
     [InstrumentChange ''synth'' polyCreate polySynthHandle,
      TimerFires True (TestNote ''synth''),
      FrameResult (handFrame stillLandmarks 1),
      FrameResult (handFrame liftedLandmarks 2),
      TimerFires True (PlayNotes [''G4'']),
      FrameResult (handFrame stillLandmarks 3)]"

definition pendingState :: app_state where
  "pendingState = runEvents beforeRun (initialState ''synth'')"


section \<open>Properties of the motion detector\<close>

lemmas frame_defs = frame1_def frame2_def restingFinger_def shiftedFinger_def shiftedFrame_def
lemmas handle_defs = polySynthHandle_def monoSynthHandle_def failingHandle_def
lemmas state_defs = readyState_def soundingState_def initialState_def
lemmas play_defs = playTimer_def startNotes_def fallbackStart_def call_triggerAttack_def
  call_triggerAttackRelease_def record_call_def setTimeout_def releaseNotes_def

lemma upt_0_5: "[0..<5] = [0, 1, 2, 3, 4]"
  by (simp add: upt_rec)

lemma sum_five: "(\<Sum>i<(5::nat). f i) = f 0 + f 1 + f 2 + f 3 + (f 4 :: real)"
  by (simp add: eval_nat_numeral lessThan_Suc)

lemma tipMovement_same: "tipMovement f f = 0"
  by (simp add: tipMovement_def)

lemma tipMovement_vertical:
  "tipX c = tipX l \<Longrightarrow> tipZ c = tipZ l \<Longrightarrow> tipMovement c l = \<bar>tipY c - tipY l\<bar>"
  by (simp add: tipMovement_def)

lemma palmLoop_five:
  assumes "5 \<le> length c" "5 \<le> length l"
  shows "palmLoop c l [0, 1, 2, 3, 4] t =
    Inr (t + tipMovement (c ! 0) (l ! 0) + tipMovement (c ! 1) (l ! 1) + tipMovement (c ! 2) (l ! 2)
           + tipMovement (c ! 3) (l ! 3) + tipMovement (c ! 4) (l ! 4))"
  using assms by auto

text \<open>On two arrays of at least five fingers the palm test returns, and it compares the
  mean of the five tip displacements with 0.02.\<close>

lemma isPalm_five:
  assumes "5 \<le> length c" "5 \<le> length l"
  shows "isPalmMovingSignificantly c l =
    Inr ((\<Sum>i<5. tipMovement (c ! i) (l ! i)) / 5 > 0.02)"
  unfolding isPalmMovingSignificantly_def Let_def palmLoop_five[OF assms]
  by (simp add: sum_five palmMovementThreshold_def)

text \<open>The loop of the detector from index \<open>i\<close> on appends, in ascending order, the fingers
  that pass both tests.\<close>

lemma detectLoop_filter:
  assumes "5 \<le> length c" "5 \<le> length l" "isPalmMovingSignificantly c l = Inr p" "i \<le> 5"
  shows "detectLoop c l i acc = Inr (acc @ filter (reported c l p) [i..<5])"
  using assms(4)
proof (induction "5 - i" arbitrary: i acc)
  case 0
  then have "i = 5" by simp
  then show ?case by (subst detectLoop.simps) simp
next
  case (Suc k)
  then have lt: "i < 5" and k: "k = 5 - Suc i" and le: "Suc i \<le> 5" by simp_all
  have upt: "[i..<5] = i # [Suc i..<5]" using lt by (simp add: upt_conv_Cons)
  have inr: "i < length c" "i < length l" using lt assms by simp_all
  show ?case
    apply (subst detectLoop.simps)
    apply (simp only: upt Suc.hyps(1)[OF k le] assms(3))
    using lt inr apply (simp add: reported_def Let_def)
    done
qed

lemma detect_five:
  assumes "5 \<le> length c" "5 \<le> length l"
  shows "detectFingerMovement c l =
    Inr (filter (reported c l ((\<Sum>i<5. tipMovement (c ! i) (l ! i)) / 5 > 0.02)) [0..<5])"
  unfolding detectFingerMovement_def
  using detectLoop_filter[OF assms isPalm_five[OF assms], of 0 "[]"] by simp

lemma frame2_palm: "isPalmMovingSignificantly frame2 frame1 = Inr False"
proof -
  have "isPalmMovingSignificantly frame2 frame1 =
     Inr ((\<Sum>i<5. tipMovement (frame2 ! i) (frame1 ! i)) / 5 > 0.02)"
    by (rule isPalm_five) (simp_all add: frame_defs)
  then show ?thesis
    by (simp add: sum_five frame_defs tipMovement_vertical)
qed

text \<open>
  Claim C3. For two arrays of five finger records the detector returns a list, and a
  finger is in it only if its index is below 5 and its extension changed by more than
  \<open>0.8 * 0.015\<close> or its tip moved by more than \<open>0.015\<close> (Euclidean distance in three
  dimensions), both strictly. When the palm test is negative, these fingers are exactly
  the ones returned. Comparing an array with itself returns the empty list.
\<close>

theorem detector_candidate_test:
  assumes "length cur = 5" "length prev = 5"
  shows "\<exists>moved. detectFingerMovement cur prev = Inr moved \<and>
     (\<forall>i. i \<in> set moved \<longrightarrow> i < 5 \<and>
        (\<bar>extension (cur ! i) - extension (prev ! i)\<bar> > 0.8 * 0.015
         \<or> sqrt ((tipX (cur ! i) - tipX (prev ! i))\<^sup>2 + (tipY (cur ! i) - tipY (prev ! i))\<^sup>2
                 + (tipZ (cur ! i) - tipZ (prev ! i))\<^sup>2) > 0.015)) \<and>
     (isPalmMovingSignificantly cur prev = Inr False \<longrightarrow>
        (\<forall>i<5. i \<in> set moved \<longleftrightarrow>
           (\<bar>extension (cur ! i) - extension (prev ! i)\<bar> > 0.8 * 0.015
            \<or> sqrt ((tipX (cur ! i) - tipX (prev ! i))\<^sup>2 + (tipY (cur ! i) - tipY (prev ! i))\<^sup>2
                 + (tipZ (cur ! i) - tipZ (prev ! i))\<^sup>2) > 0.015))) \<and>
     detectFingerMovement prev prev = Inr []"
proof -
  have c: "5 \<le> length cur" and p: "5 \<le> length prev" using assms by simp_all
  let ?palm = "(\<Sum>i<5. tipMovement (cur ! i) (prev ! i)) / 5 > 0.02"
  let ?moved = "filter (reported cur prev ?palm) [0..<5]"
  have d: "detectFingerMovement cur prev = Inr ?moved" by (rule detect_five[OF c p])
  have same: "detectFingerMovement prev prev = Inr []"
    by (simp add: detect_five[OF p p] reported_def tipMovement_same extensionChange_def
          movementThreshold_def upt_0_5)
  have a: "\<forall>i. i \<in> set ?moved \<longrightarrow> i < 5 \<and>
        (\<bar>extension (cur ! i) - extension (prev ! i)\<bar> > 0.8 * 0.015
         \<or> sqrt ((tipX (cur ! i) - tipX (prev ! i))\<^sup>2 + (tipY (cur ! i) - tipY (prev ! i))\<^sup>2
                 + (tipZ (cur ! i) - tipZ (prev ! i))\<^sup>2) > 0.015)"
    by (auto simp: reported_def extensionChange_def tipMovement_def movementThreshold_def)
  have b: "isPalmMovingSignificantly cur prev = Inr False \<longrightarrow>
        (\<forall>i<5. i \<in> set ?moved \<longleftrightarrow>
           (\<bar>extension (cur ! i) - extension (prev ! i)\<bar> > 0.8 * 0.015
            \<or> sqrt ((tipX (cur ! i) - tipX (prev ! i))\<^sup>2 + (tipY (cur ! i) - tipY (prev ! i))\<^sup>2
                 + (tipZ (cur ! i) - tipZ (prev ! i))\<^sup>2) > 0.015))"
    unfolding isPalm_five[OF c p]
    by (auto simp: reported_def extensionChange_def tipMovement_def movementThreshold_def)
  from d a b same show ?thesis by blast
qed

theorem detector_candidate_test_witness:
  "length frame2 = 5 \<and> length frame1 = 5 \<and> isPalmMovingSignificantly frame2 frame1 = Inr False
   \<and> (\<exists>moved. detectFingerMovement frame2 frame1 = Inr moved \<and> 1 \<in> set moved \<and> 0 \<notin> set moved)
   \<and> detectFingerMovement frame1 frame1 = Inr []"
proof -
  have l2: "length frame2 = 5" and l1: "length frame1 = 5" by (simp_all add: frame_defs)
  from detector_candidate_test[OF l2 l1] obtain moved where
    d: "detectFingerMovement frame2 frame1 = Inr moved"
    and b: "isPalmMovingSignificantly frame2 frame1 = Inr False \<longrightarrow>
        (\<forall>i<5. i \<in> set moved \<longleftrightarrow>
           (\<bar>extension (frame2 ! i) - extension (frame1 ! i)\<bar> > 0.8 * 0.015
            \<or> sqrt ((tipX (frame2 ! i) - tipX (frame1 ! i))\<^sup>2 + (tipY (frame2 ! i) - tipY (frame1 ! i))\<^sup>2
                 + (tipZ (frame2 ! i) - tipZ (frame1 ! i))\<^sup>2) > 0.015))"
    and s: "detectFingerMovement frame1 frame1 = Inr []" by blast
  from b frame2_palm have "1 \<in> set moved" by (simp add: frame_defs)
  moreover from b frame2_palm have "0 \<notin> set moved" by (simp add: frame_defs)
  ultimately show ?thesis using l1 l2 d s frame2_palm by blast
qed

text \<open>
  Claim C4 (veto law). For two arrays of five finger records, when the mean of the five
  tip displacements exceeds \<open>0.02\<close>, a finger whose extension changed by at most
  \<open>1.5 * 0.015\<close> is not in the returned list, whatever its tip displacement, and a finger
  whose extension changed by more than \<open>1.5 * 0.015\<close> is in it.
\<close>

theorem detector_palm_veto:
  assumes "length cur = 5" "length prev = 5"
    and "(\<Sum>i<5. tipMovement (cur ! i) (prev ! i)) / 5 > 0.02"
  shows "\<exists>moved. detectFingerMovement cur prev = Inr moved \<and>
     (\<forall>i<5. (extensionChange (cur ! i) (prev ! i) \<le> 1.5 * 0.015 \<longrightarrow> i \<notin> set moved) \<and>
             (extensionChange (cur ! i) (prev ! i) > 1.5 * 0.015 \<longrightarrow> i \<in> set moved))"
proof -
  have c: "5 \<le> length cur" and p: "5 \<le> length prev" using assms by simp_all
  show ?thesis
    unfolding detect_five[OF c p]
    using assms(3) by (auto simp: reported_def movementThreshold_def)
qed

theorem detector_palm_veto_witness:
  "length shiftedFrame = 5 \<and> length frame1 = 5
   \<and> (\<Sum>i<5. tipMovement (shiftedFrame ! i) (frame1 ! i)) / 5 > 0.02
   \<and> extensionChange (shiftedFrame ! 1) (frame1 ! 1) > 0.8 * 0.015
   \<and> extensionChange (shiftedFrame ! 1) (frame1 ! 1) \<le> 1.5 * 0.015
   \<and> extensionChange (shiftedFrame ! 2) (frame1 ! 2) > 1.5 * 0.015
   \<and> (\<exists>moved. detectFingerMovement shiftedFrame frame1 = Inr moved \<and> 1 \<notin> set moved \<and> 2 \<in> set moved)"
proof -
  have l2: "length shiftedFrame = 5" and l1: "length frame1 = 5" by (simp_all add: frame_defs)
  have palm: "(\<Sum>i<5. tipMovement (shiftedFrame ! i) (frame1 ! i)) / 5 > 0.02"
    by (simp add: sum_five frame_defs tipMovement_vertical)
  have e1: "extensionChange (shiftedFrame ! 1) (frame1 ! 1) > 0.8 * 0.015"
    and e1': "extensionChange (shiftedFrame ! 1) (frame1 ! 1) \<le> 1.5 * 0.015"
    and e2: "extensionChange (shiftedFrame ! 2) (frame1 ! 2) > 1.5 * 0.015"
    by (simp_all add: frame_defs extensionChange_def)
  from detector_palm_veto[OF l2 l1 palm] obtain moved where
    d: "detectFingerMovement shiftedFrame frame1 = Inr moved"
    and v: "\<forall>i<5. (extensionChange (shiftedFrame ! i) (frame1 ! i) \<le> 1.5 * 0.015 \<longrightarrow> i \<notin> set moved) \<and>
             (extensionChange (shiftedFrame ! i) (frame1 ! i) > 1.5 * 0.015 \<longrightarrow> i \<in> set moved)"
    by blast
  from v e1' have "1 \<notin> set moved" by simp
  moreover from v e2 have "2 \<in> set moved" by simp
  ultimately show ?thesis using l1 l2 palm e1 e1' e2 d by blast
qed

section \<open>Properties of the height-to-pitch mapping\<close>

lemma clamped8: "length scale = 8 \<Longrightarrow> clampedNoteIndex scale h = max 0 (min 7 \<lfloor>h * 8\<rfloor>)"
  by (simp add: clampedNoteIndex_def noteIndex_def)

lemma clampedNoteIndex_bounds:
  "scale \<noteq> [] \<Longrightarrow> 0 \<le> clampedNoteIndex scale h \<and> clampedNoteIndex scale h < int (length scale)"
  by (cases scale) (simp_all add: clampedNoteIndex_def)

text \<open>
  Claim C2. For a scale of eight notes and every height \<open>h\<close>, the note returned is the
  scale entry at \<open>floor (h * N)\<close> clamped to \<open>0 .. N - 1\<close>; the clamped index lies
  inside the scale; it is \<open>0\<close> at height 0, and \<open>N - 1\<close> at heights 0.999 and 1; and it
  does not decrease when the height grows. The mapping is a function of the scale and the
  height, so equal inputs give equal outputs.
\<close>

theorem pitch_mapper_clamped_index:
  assumes "length scale = 8"
  shows "scaleNote scale h = scale ! nat (max 0 (min (int (length scale) - 1) \<lfloor>h * real (length scale)\<rfloor>))
    \<and> 0 \<le> clampedNoteIndex scale h \<and> clampedNoteIndex scale h < int (length scale)
    \<and> clampedNoteIndex scale 0.0 = 0
    \<and> clampedNoteIndex scale 0.999 = int (length scale) - 1
    \<and> clampedNoteIndex scale 1.0 = int (length scale) - 1
    \<and> (\<forall>h'. h \<le> h' \<longrightarrow> clampedNoteIndex scale h \<le> clampedNoteIndex scale h')"
proof -
  note c8 = clamped8[OF assms]
  have n: "int (length scale) - 1 = 7" using assms by simp
  have f: "\<lfloor>(0.999::real) * 8\<rfloor> = 7" by (rule floor_unique) simp_all
  have 1: "scaleNote scale h = scale ! nat (max 0 (min (int (length scale) - 1) \<lfloor>h * real (length scale)\<rfloor>))"
    by (simp add: scaleNote_def clampedNoteIndex_def noteIndex_def)
  have 2: "0 \<le> clampedNoteIndex scale h" by (simp add: c8)
  have 3: "clampedNoteIndex scale h < int (length scale)" using assms by (simp add: c8)
  have 4: "clampedNoteIndex scale 0.0 = 0" by (simp add: c8)
  have 5: "clampedNoteIndex scale 0.999 = int (length scale) - 1" by (simp add: c8 n f)
  have 6: "clampedNoteIndex scale 1.0 = int (length scale) - 1" by (simp add: c8 n)
  have 7: "\<forall>h'. h \<le> h' \<longrightarrow> clampedNoteIndex scale h \<le> clampedNoteIndex scale h'"
  proof (intro allI impI)
    fix h' :: real
    assume "h \<le> h'"
    then have "\<lfloor>h * 8\<rfloor> \<le> \<lfloor>h' * 8\<rfloor>" by (intro floor_mono) simp
    then show "clampedNoteIndex scale h \<le> clampedNoteIndex scale h'"
      unfolding c8 by linarith
  qed
  from 1 2 3 4 5 6 7 show ?thesis by blast
qed

theorem pitch_mapper_clamped_index_witness:
  "length cMajor = 8 \<and> scaleNote cMajor 0.55 = ''G4'' \<and> clampedNoteIndex cMajor 0.999 = 7
   \<and> clampedNoteIndex cMajor 0.3 \<le> clampedNoteIndex cMajor 0.7"
proof -
  have len: "length cMajor = 8" by (simp add: cMajor_def)
  have fl: "\<lfloor>(0.55::real) * 8\<rfloor> = 4" by (rule floor_unique) simp_all
  from pitch_mapper_clamped_index[OF len, of "0.55"]
  have a: "scaleNote cMajor 0.55 = cMajor ! nat (max 0 (min (int (length cMajor) - 1) \<lfloor>0.55 * real (length cMajor)\<rfloor>))"
    and b: "clampedNoteIndex cMajor 0.999 = int (length cMajor) - 1" by blast+
  from pitch_mapper_clamped_index[OF len, of "0.3"]
  have c: "clampedNoteIndex cMajor 0.3 \<le> clampedNoteIndex cMajor 0.7"
    by simp
  have "scaleNote cMajor 0.55 = ''G4''" unfolding a len by (simp add: fl) (simp add: cMajor_def)
  with len b c show ?thesis by simp
qed

lemma noteIndex_055: "noteIndex cMajor 0.55 = 4"
proof -
  have "\<lfloor>(0.55::real) * 8\<rfloor> = 4" by (rule floor_unique) simp_all
  then show ?thesis by (simp add: noteIndex_def cMajor_def)
qed

lemma scaleNote_055: "scaleNote currentScale 0.55 = ''G4''"
  using noteIndex_055
  by (simp add: scaleNote_def clampedNoteIndex_def currentScale_def) (simp add: cMajor_def)

lemma frame2_length: "length frame2 = 5"
  by (simp add: frame_defs)

lemma frame2_note: "scaleNote currentScale (height (frame2 ! Suc 0)) = ''G4''"
proof -
  have "height (frame2 ! Suc 0) = 0.55" by (simp add: frame_defs)
  then show ?thesis by (simp only: scaleNote_055)
qed

section \<open>Properties of the playback controller\<close>

lemma releaseNotes_calls: "releaseNotes h s = s\<lparr>calls := calls s @ releaseCalls h\<rparr>"
  by (simp add: releaseNotes_def releaseCalls_def record_call_def)

text \<open>With every finger index inside the array, the note loop returns one note per moved
  finger, in the order of the moved fingers.\<close>

lemma notesLoop_map:
  "\<forall>i\<in>set movedFingers. i < length fingerPositions \<Longrightarrow>
   notesLoop movedFingers fingerPositions acc =
     Inr (acc @ map (\<lambda>i. scaleNote currentScale (height (fingerPositions ! i))) movedFingers)"
  by (induction movedFingers arbitrary: acc) simp_all

text \<open>The synchronous part of playNotesForFingers, with a synthesizer present.\<close>

lemma playNotesForFingers_sync:
  assumes "synth s = Some h" "\<forall>i\<in>set movedFingers. i < length fingerPositions" "movedFingers \<noteq> []"
  shows "playNotesForFingers movedFingers fingerPositions s =
     (None, s\<lparr>currentNotes := [],
              calls := calls s @ (if currentNotes s \<noteq> [] then releaseCalls h else []),
              scheduled := scheduled s @
                [PlayNotes (map (\<lambda>i. scaleNote currentScale (height (fingerPositions ! i))) movedFingers)]\<rparr>)"
  using assms
  by (simp add: playNotesForFingers_def notesLoop_map releaseNotes_calls setTimeout_def)

text \<open>The 10 ms callback when the start does not throw, and when it throws.\<close>

lemma playTimer_started:
  assumes "synth s = Some h" "\<not> (has_triggerAttack h \<and> triggerAttack_throws h)"
  shows "playTimer notesToPlay s =
     (None, s\<lparr>currentNotes := notesToPlay, isPlaying := True,
              calls := calls s @ startCalls h notesToPlay,
              scheduled := scheduled s @ (if instrumentSelect s = ''bass'' then [AutoRelease] else [])\<rparr>)"
  using assms
  by (auto simp add: playTimer_def startNotes_def call_triggerAttack_def record_call_def
        setTimeout_def startCalls_def Let_def)

lemma playTimer_failed:
  assumes "synth s = Some h" "has_triggerAttack h" "triggerAttack_throws h"
  shows "currentNotes (snd (playTimer notesToPlay s)) = currentNotes s
       \<and> isPlaying (snd (playTimer notesToPlay s)) = isPlaying s"
  using assms by (simp add: play_defs)

lemma playTimer_no_exception: "fst (playTimer notesToPlay s) = None"
  by (simp add: playTimer_def Let_def split: option.splits sum.splits)

text \<open>A handle that offers both \<^verbatim>\<open>triggerAttack\<close> and \<^verbatim>\<open>triggerAttackRelease\<close> never takes
  the branch that starts the whole array.\<close>

lemma startNotes_first_note:
  "has_triggerAttack h \<Longrightarrow> has_triggerAttackRelease h \<Longrightarrow>
   startNotes h notesToPlay s = call_triggerAttack h (One (hd notesToPlay)) s"
  by (simp add: startNotes_def)

lemma afterCall_eq:
  "afterCall h = (readyState h ''synth'')\<lparr>isPlaying := True, calls := releaseCalls h,
      scheduled := [PlayNotes [''G4'']]\<rparr>"
proof -
  have "synth (soundingState h ''synth'') = Some h" by (simp add: state_defs)
  from playNotesForFingers_sync[OF this, of "[1]" frame2]
  show ?thesis
    by (simp add: afterCall_def state_defs frame2_length frame2_note)
qed

text \<open>
  Claim C1 (end-to-end scenario). Let the previous frame have five fingers, all of
  extension 0.1 and height 0.5, and let the current frame differ from it only in finger 1,
  whose tip has \<open>y\<close> smaller by 0.05, height 0.55 and extension 0.2 (its wrist-relative
  \<open>y\<close> may be any value). Then the detector returns exactly \<open>[1]\<close>; on the active scale,
  which is C major, the height of finger 1 gives index 4 and the note G4; and the
  playback controller, called with a synthesizer present, computes the candidate list
  \<open>[G4]\<close> and hands exactly that list to its deferred start.
\<close>

theorem end_to_end_scenario:
  assumes len: "length prev = 5"
    and rest: "\<forall>f\<in>set prev. extension f = 0.1 \<and> height f = 0.5"
    and cur: "cur = prev[1 := (prev ! 1)\<lparr>tipY := tipY (prev ! 1) - 0.05, relativeY := ry,
                                       extension := 0.2, height := 0.55\<rparr>]"
    and syn: "synth s = Some h"
  shows "detectFingerMovement cur prev = Inr [1]
    \<and> currentScale = [''C4'', ''D4'', ''E4'', ''F4'', ''G4'', ''A4'', ''B4'', ''C5'']
    \<and> noteIndex currentScale (height (cur ! 1)) = 4
    \<and> clampedNoteIndex currentScale (height (cur ! 1)) = 4
    \<and> scaleNote currentScale (height (cur ! 1)) = ''G4''
    \<and> notesLoop [1] cur [] = Inr [''G4'']
    \<and> fst (playNotesForFingers [1] cur s) = None
    \<and> scheduled (snd (playNotesForFingers [1] cur s)) = scheduled s @ [PlayNotes [''G4'']]"
proof -
  have lc: "length cur = 5" using len cur by simp
  have ext: "extension (prev ! i) = 0.1" if "i < 5" for i
    using rest len that by (simp add: nth_mem)
  have other: "cur ! i = prev ! i" if "i \<noteq> 1" for i
    using that cur by simp
  have c1: "cur ! 1 = (prev ! 1)\<lparr>tipY := tipY (prev ! 1) - 0.05, relativeY := ry,
                                 extension := 0.2, height := 0.55\<rparr>"
    using cur len by simp
  have tm1: "tipMovement (cur ! 1) (prev ! 1) = 0.05"
    unfolding c1 by (simp add: tipMovement_vertical)
  have tmo: "tipMovement (cur ! i) (prev ! i) = 0" if "i \<noteq> 1" for i
    by (simp add: other[OF that] tipMovement_same)
  have eco: "extensionChange (cur ! i) (prev ! i) = 0" if "i \<noteq> 1" for i
    by (simp add: other[OF that] extensionChange_def)
  have ec1: "extensionChange (cur ! 1) (prev ! 1) = 0.1"
    unfolding c1 using ext[of 1] by (simp add: extensionChange_def)
  have palm: "\<not> (\<Sum>i<5. tipMovement (cur ! i) (prev ! i)) / 5 > 0.02"
    by (simp add: sum_five tm1[unfolded One_nat_def] tmo)
  have d: "detectFingerMovement cur prev = Inr [1]"
    using detect_five[of cur prev] lc len palm
    by (simp add: upt_0_5 reported_def tm1[unfolded One_nat_def] tmo eco ec1[unfolded One_nat_def]
          movementThreshold_def)
  have hgt: "height (cur ! 1) = 0.55" unfolding c1 by simp
  have ni: "noteIndex currentScale (height (cur ! 1)) = 4"
    unfolding hgt currentScale_def by (rule noteIndex_055)
  have ci: "clampedNoteIndex currentScale (height (cur ! 1)) = 4"
    using ni by (simp add: clampedNoteIndex_def currentScale_def cMajor_def)
  have sn: "scaleNote currentScale (height (cur ! 1)) = ''G4''"
    unfolding hgt by (rule scaleNote_055)
  have nl: "notesLoop [1] cur [] = Inr [''G4'']"
    using lc sn[unfolded One_nat_def] by simp
  have p1: "fst (playNotesForFingers [1] cur s) = None"
    and p2: "scheduled (snd (playNotesForFingers [1] cur s)) = scheduled s @ [PlayNotes [''G4'']]"
    using syn nl by (simp_all add: playNotesForFingers_def releaseNotes_calls setTimeout_def)
  have cs: "currentScale = [''C4'', ''D4'', ''E4'', ''F4'', ''G4'', ''A4'', ''B4'', ''C5'']"
    by (simp add: currentScale_def cMajor_def)
  from d cs ni ci sn nl p1 p2 show ?thesis by blast
qed

theorem end_to_end_scenario_witness:
  "length frame1 = 5
   \<and> extension (frame1 ! 3) = 0.1 \<and> height (frame1 ! 3) = 0.5
   \<and> detectFingerMovement frame2 frame1 = Inr [1]
   \<and> notesLoop [1] frame2 [] = Inr [''G4'']
   \<and> scheduled (snd (playNotesForFingers [1] frame2 (readyState polySynthHandle ''synth'')))
        = [PlayNotes [''G4'']]"
proof -
  have len: "length frame1 = 5" by (simp add: frame_defs)
  have rest: "\<forall>f\<in>set frame1. extension f = 0.1 \<and> height f = 0.5" by (simp add: frame_defs)
  have cur: "frame2 = frame1[1 := (frame1 ! 1)\<lparr>tipY := tipY (frame1 ! 1) - 0.05, relativeY := -0.35,
                                              extension := 0.2, height := 0.55\<rparr>]"
    by (simp add: frame_defs)
  have syn: "synth (readyState polySynthHandle ''synth'') = Some polySynthHandle"
    by (simp add: state_defs)
  from end_to_end_scenario[OF len rest cur syn] len show ?thesis
    by (simp add: state_defs) (simp add: frame_defs)
qed

text \<open>
  Claim C5, as stated, fails. In a state that records C4 as sounding, on a synthesizer
  whose \<^verbatim>\<open>triggerAttack\<close> throws, the controller is called for the index finger of
  \<open>frame2\<close>. When the call returns, \<open>currentNotes\<close> is empty and the start of G4 is only
  scheduled; when the 10 ms callback has run, the release and then the fallback start of
  G4 have reached the synthesizer, and \<open>currentNotes\<close> is still empty, not \<open>[G4]\<close>.
\<close>

theorem retrigger_not_recorded_counterexample:
  "currentNotes (afterCall failingHandle) = []
   \<and> scheduled (afterCall failingHandle) = [PlayNotes [''G4'']]
   \<and> calls (snd (playTimer [''G4''] (afterCall failingHandle)))
        = [ReleaseAll, TriggerAttackRelease (One ''G4'') ''8n'']
   \<and> currentNotes (snd (playTimer [''G4''] (afterCall failingHandle))) = []
   \<and> currentNotes (snd (playTimer [''G4''] (afterCall failingHandle))) \<noteq> [''G4'']"
  unfolding afterCall_eq
  by (simp add: play_defs handle_defs state_defs releaseCalls_def)

text \<open>
  Claim C5, amended. Let the controller be called with a synthesizer present and a
  non-empty list of moved fingers, all inside the finger array; let \<open>notesToPlay\<close> be the
  notes of the moved fingers, \<open>s1\<close> the state when the call returns and \<open>s2\<close> the state
  after its 10 ms callback. The call does not throw. In \<open>s1\<close>, \<open>currentNotes\<close> is empty; if
  notes were recorded as sounding, the release probe has run (\<^verbatim>\<open>releaseAll\<close>, else
  \<^verbatim>\<open>triggerRelease\<close>); and the start of \<open>notesToPlay\<close> is scheduled, not yet made. If the
  start does not throw, then in \<open>s2\<close> \<open>currentNotes\<close> is exactly \<open>notesToPlay\<close>, \<open>isPlaying\<close>
  is true, and the calls made are the release, if any, followed by the start. If the start
  throws, \<open>currentNotes\<close> stays empty.
\<close>

theorem retrigger_deferred_start:
  assumes syn: "synth s = Some h"
    and ne: "movedFingers \<noteq> []"
    and idx: "\<forall>i\<in>set movedFingers. i < length fingerPositions"
    and nts: "notesToPlay = map (\<lambda>i. scaleNote currentScale (height (fingerPositions ! i))) movedFingers"
    and s1: "s1 = snd (playNotesForFingers movedFingers fingerPositions s)"
    and s2: "s2 = snd (playTimer notesToPlay s1)"
  shows "fst (playNotesForFingers movedFingers fingerPositions s) = None
    \<and> currentNotes s1 = []
    \<and> calls s1 = calls s @ (if currentNotes s \<noteq> [] then releaseCalls h else [])
    \<and> scheduled s1 = scheduled s @ [PlayNotes notesToPlay]
    \<and> (\<not> (has_triggerAttack h \<and> triggerAttack_throws h) \<longrightarrow>
          currentNotes s2 = notesToPlay \<and> isPlaying s2
          \<and> (\<exists>arg. calls s2 = calls s @ (if currentNotes s \<noteq> [] then releaseCalls h else [])
                           @ (if has_triggerAttack h then [TriggerAttack arg] else [])))
    \<and> (has_triggerAttack h \<and> triggerAttack_throws h \<longrightarrow> currentNotes s2 = [])"
proof -
  have sync: "playNotesForFingers movedFingers fingerPositions s =
     (None, s\<lparr>currentNotes := [],
              calls := calls s @ (if currentNotes s \<noteq> [] then releaseCalls h else []),
              scheduled := scheduled s @ [PlayNotes notesToPlay]\<rparr>)"
    unfolding nts by (rule playNotesForFingers_sync[OF syn idx ne])
  have syn1: "synth s1 = Some h" and cn1: "currentNotes s1 = []"
    and ca1: "calls s1 = calls s @ (if currentNotes s \<noteq> [] then releaseCalls h else [])"
    and sc1: "scheduled s1 = scheduled s @ [PlayNotes notesToPlay]"
    unfolding s1 sync using syn by simp_all
  have st: "\<exists>arg. startCalls h notesToPlay = (if has_triggerAttack h then [TriggerAttack arg] else [])"
    by (simp add: startCalls_def)
  have ok: "currentNotes s2 = notesToPlay \<and> isPlaying s2
          \<and> (\<exists>arg. calls s2 = calls s @ (if currentNotes s \<noteq> [] then releaseCalls h else [])
                           @ (if has_triggerAttack h then [TriggerAttack arg] else []))"
    if "\<not> (has_triggerAttack h \<and> triggerAttack_throws h)"
  proof -
    from st obtain arg where
      "startCalls h notesToPlay = (if has_triggerAttack h then [TriggerAttack arg] else [])" ..
    then show ?thesis
      unfolding s2 playTimer_started[OF syn1 that] by (auto simp add: ca1)
  qed
  have bad: "currentNotes s2 = []" if "has_triggerAttack h \<and> triggerAttack_throws h"
    unfolding s2 using playTimer_failed[OF syn1, of notesToPlay] that cn1 by simp
  show ?thesis
    using ok bad cn1 ca1 sc1 by (simp add: sync)
qed

theorem retrigger_deferred_start_witness:
  "currentNotes (soundingState polySynthHandle ''synth'') = [''C4'']
   \<and> currentNotes (afterCall polySynthHandle) = []
   \<and> scheduled (afterCall polySynthHandle) = [PlayNotes [''G4'']]
   \<and> currentNotes (snd (playTimer [''G4''] (afterCall polySynthHandle))) = [''G4'']
   \<and> isPlaying (snd (playTimer [''G4''] (afterCall polySynthHandle)))
   \<and> calls (snd (playTimer [''G4''] (afterCall polySynthHandle)))
        = [ReleaseAll, TriggerAttack (One ''G4'')]"
proof -
  have syn: "synth (soundingState polySynthHandle ''synth'') = Some polySynthHandle"
    by (simp add: state_defs)
  have ne: "[1::nat] \<noteq> []" by simp
  have idx: "\<forall>i\<in>set [1::nat]. i < length frame2" by (simp add: frame2_length)
  have nts: "[''G4''] = map (\<lambda>i. scaleNote currentScale (height (frame2 ! i))) [1]"
    by (simp add: frame2_note)
  have ok: "\<not> (has_triggerAttack polySynthHandle \<and> triggerAttack_throws polySynthHandle)"
    by (simp add: handle_defs)
  have c: "currentNotes (soundingState polySynthHandle ''synth'') = [''C4'']"
    by (simp add: state_defs)
  have t: "calls (snd (playTimer [''G4''] (afterCall polySynthHandle)))
        = [ReleaseAll, TriggerAttack (One ''G4'')]"
    unfolding afterCall_eq by (simp add: play_defs handle_defs state_defs releaseCalls_def)
  from retrigger_deferred_start[OF syn ne idx nts afterCall_def[of polySynthHandle] refl] ok
  have "currentNotes (afterCall polySynthHandle) = []"
    and "scheduled (afterCall polySynthHandle)
           = scheduled (soundingState polySynthHandle ''synth'') @ [PlayNotes [''G4'']]"
    and "currentNotes (snd (playTimer [''G4''] (afterCall polySynthHandle))) = [''G4'']"
    and "isPlaying (snd (playTimer [''G4''] (afterCall polySynthHandle)))"
    by blast+
  with c t show ?thesis by (simp add: state_defs)
qed

text \<open>
  Claim C7 fails on the code. The branch that starts all candidate notes as a chord is
  taken only by a handle that has \<^verbatim>\<open>triggerAttack\<close> and lacks \<^verbatim>\<open>triggerAttackRelease\<close>.
  The polyphonic voice has both. With the candidate notes C4, E4 and G4 the 10 ms callback
  starts C4 alone, and records all three notes as sounding.
\<close>

theorem polyphonic_handle_starts_first_note_only:
  "polyphonic polySynthHandle
   \<and> calls (snd (playTimer [''C4'', ''E4'', ''G4''] (readyState polySynthHandle ''synth'')))
       = [TriggerAttack (One ''C4'')]
   \<and> currentNotes (snd (playTimer [''C4'', ''E4'', ''G4''] (readyState polySynthHandle ''synth'')))
       = [''C4'', ''E4'', ''G4'']"
  by (simp add: play_defs handle_defs state_defs)

text \<open>
  Claim C8, as stated, fails. With the candidate notes C4 and E4 on a synthesizer whose
  \<^verbatim>\<open>triggerAttack\<close> throws, the fallback calls \<^verbatim>\<open>triggerAttackRelease\<close> with the whole
  array: the chord is tried again, not the first note alone.
\<close>

theorem fallback_retries_chord_counterexample:
  "calls (snd (playTimer [''C4'', ''E4''] (readyState failingHandle ''synth'')))
     = [TriggerAttackRelease (Many [''C4'', ''E4'']) ''8n'']
   \<and> calls (snd (playTimer [''C4'', ''E4''] (readyState failingHandle ''synth'')))
     \<noteq> [TriggerAttackRelease (One ''C4'') ''8n'']"
  by (simp add: play_defs handle_defs state_defs)

text \<open>
  Claim C8, amended. For every non-empty candidate list, if the start of the notes throws,
  no exception leaves the callback, and the controller makes one fallback call of
  \<^verbatim>\<open>triggerAttackRelease\<close> with the duration \<^verbatim>\<open>"8n"\<close>: with the single note when the list
  has exactly one note, with the whole list otherwise. When that call succeeds, nothing
  else of the state changes; when the method is missing or throws as well, the state is
  unchanged.
\<close>

theorem fallback_after_failed_start:
  assumes "synth s = Some h" "has_triggerAttack h" "triggerAttack_throws h" "notesToPlay \<noteq> []"
  shows "fst (playTimer notesToPlay s) = None
    \<and> (has_triggerAttackRelease h \<and> \<not> triggerAttackRelease_throws h \<longrightarrow>
         snd (playTimer notesToPlay s) =
           s\<lparr>calls := calls s @
               [TriggerAttackRelease
                  (if length notesToPlay = 1 then One (hd notesToPlay) else Many notesToPlay) ''8n'']\<rparr>)
    \<and> (\<not> has_triggerAttackRelease h \<or> triggerAttackRelease_throws h \<longrightarrow>
         snd (playTimer notesToPlay s) = s)"
  using assms by (simp add: play_defs)

theorem fallback_after_failed_start_witness:
  "synth (readyState failingHandle ''synth'') = Some failingHandle
   \<and> has_triggerAttack failingHandle \<and> triggerAttack_throws failingHandle
   \<and> fst (playTimer [''G4''] (readyState failingHandle ''synth'')) = None
   \<and> calls (snd (playTimer [''G4''] (readyState failingHandle ''synth'')))
       = [TriggerAttackRelease (One ''G4'') ''8n'']"
proof -
  have a: "synth (readyState failingHandle ''synth'') = Some failingHandle"
    and b: "has_triggerAttack failingHandle" and c: "triggerAttack_throws failingHandle"
    and d: "has_triggerAttackRelease failingHandle \<and> \<not> triggerAttackRelease_throws failingHandle"
    by (simp_all add: handle_defs state_defs)
  have e: "[''G4''] \<noteq> []" by simp
  from fallback_after_failed_start[OF a b c e] d
  have "fst (playTimer [''G4''] (readyState failingHandle ''synth'')) = None"
    and "snd (playTimer [''G4''] (readyState failingHandle ''synth'')) =
           (readyState failingHandle ''synth'')\<lparr>calls := calls (readyState failingHandle ''synth'') @
               [TriggerAttackRelease (if length [''G4''] = 1 then One (hd [''G4'']) else Many [''G4'']) ''8n'']\<rparr>"
    by blast+
  then show ?thesis using a b c by (simp add: state_defs)
qed

section \<open>Properties of the state resets\<close>

text \<open>An instrument change resets the playback state. A camera stop assigns neither
  \<open>isPlaying\<close> nor \<open>currentNotes\<close>.\<close>

lemma changeInstrument_resets:
  "isPlaying (changeInstrument create fallback s) = False
   \<and> currentNotes (changeInstrument create fallback s) = []"
  by (simp add: changeInstrument_def Let_def record_call_def setTimeout_def
      split: option.splits sum.splits)

lemma stopCamera_state_unchanged:
  "isPlaying (snd (stopCamera s)) = isPlaying s
   \<and> currentNotes (snd (stopCamera s)) = currentNotes s"
  by (simp add: stopCamera_def record_call_def split: option.splits)

text \<open>
  Claim C9 fails on the code for the camera stop. Stopping the camera in a state that
  records C4 as sounding on the polyphonic voice calls \<^verbatim>\<open>releaseAll\<close> and leaves \<open>isPlaying\<close>
  true and \<open>currentNotes\<close> equal to \<open>[C4]\<close>. On the bass voice, which has no
  \<^verbatim>\<open>releaseAll\<close>, the call made without a probe throws a TypeError: no note is released
  and the state is as it was.
\<close>

theorem stopCamera_keeps_state:
  "isPlaying (snd (stopCamera (soundingState polySynthHandle ''synth''))) = True
   \<and> currentNotes (snd (stopCamera (soundingState polySynthHandle ''synth''))) = [''C4'']
   \<and> calls (snd (stopCamera (soundingState polySynthHandle ''synth''))) = [ReleaseAll]
   \<and> stopCamera (soundingState monoSynthHandle ''bass'')
       = (Some TypeError, soundingState monoSynthHandle ''bass'')"
  by (simp add: stopCamera_def record_call_def handle_defs state_defs)

section \<open>Properties of the frame callback\<close>

lemma noHandDetected_idem: "noHandDetected (noHandDetected s) = noHandDetected s"
  by (simp add: noHandDetected_def releaseNotes_calls split: option.splits)







lemma calculateFingerPositions_21:
  assumes "21 \<le> length landmarks"
  shows "calculateFingerPositions landmarks =
    Inr (map (\<lambda>(t, b). fingerPosition (landmarks ! t) (landmarks ! b) (landmarks ! 0))
           (zip fingerTips fingerBases))"
  using assms
  by (auto simp add: calculateFingerPositions_def positionsLoop.simps fingerTips_def fingerBases_def
        wristIndex_def)

lemma still_positions: "calculateFingerPositions stillLandmarks = Inr (replicate 5 curledFinger)"
proof -
  have "21 \<le> length stillLandmarks" by (simp add: stillLandmarks_def)
  from calculateFingerPositions_21[OF this] show ?thesis
    by (simp add: fingerTips_def fingerBases_def stillLandmarks_def fingerPosition_def
          curledFinger_def eval_nat_numeral)
qed






lemma reachable_runEvents: "reachable s \<Longrightarrow> reachable (runEvents es s)"
  by (induction es arbitrary: s) (simp_all add: reachable.after)

lemma pendingState_reachable: "reachable pendingState"
  unfolding pendingState_def by (rule reachable_runEvents) (rule reachable.start)





lemma still_detect: "detectFingerMovement (replicate 5 curledFinger) frame1 = Inr [0, 1, 2, 3, 4]"
proof -
  have "detectFingerMovement (replicate 5 curledFinger) frame1 =
    Inr (filter (reported (replicate 5 curledFinger) frame1
       ((\<Sum>i<5. tipMovement (replicate 5 curledFinger ! i) (frame1 ! i)) / 5 > 0.02)) [0..<5])"
    by (rule detect_five) (simp_all add: frame_defs)
  then show ?thesis
    by (simp add: upt_0_5 sum_five reported_def frame_defs curledFinger_def tipMovement_vertical
          extensionChange_def movementThreshold_def)
qed

text \<open>
  Claim C10 (rate limit). When at most 0.1 s have passed since the last note trigger
  (\<open>t1 - lastNoteTime \<le> 0.1\<close>, with \<open>t1\<close> the time read in the guard), a frame with a hand
  leaves \<open>currentNotes\<close>, \<open>isPlaying\<close> and \<open>lastNoteTime\<close> unchanged, makes no call on the
  synthesizer and schedules no start of notes, whatever the detector reports.
\<close>

theorem rate_limit:
  assumes "t1 - lastNoteTime s \<le> 0.1"
  shows "currentNotes (snd (playMusicFromHandPosition landmarks t1 t2 s)) = currentNotes s
    \<and> isPlaying (snd (playMusicFromHandPosition landmarks t1 t2 s)) = isPlaying s
    \<and> calls (snd (playMusicFromHandPosition landmarks t1 t2 s)) = calls s
    \<and> scheduled (snd (playMusicFromHandPosition landmarks t1 t2 s)) = scheduled s
    \<and> lastNoteTime (snd (playMusicFromHandPosition landmarks t1 t2 s)) = lastNoteTime s"
  using assms
  by (simp add: playMusicFromHandPosition_def split: sum.splits option.splits)

theorem rate_limit_witness:
  "1.05 - lastNoteTime trackedState \<le> 0.1
   \<and> calculateFingerPositions stillLandmarks = Inr (replicate 5 curledFinger)
   \<and> lastFingerPositions trackedState = Some frame1
   \<and> detectFingerMovement (replicate 5 curledFinger) frame1 = Inr [0, 1, 2, 3, 4]
   \<and> currentNotes (snd (playMusicFromHandPosition stillLandmarks 1.05 1.06 trackedState)) = [''C4'']
   \<and> isPlaying (snd (playMusicFromHandPosition stillLandmarks 1.05 1.06 trackedState))
   \<and> calls (snd (playMusicFromHandPosition stillLandmarks 1.05 1.06 trackedState)) = []
   \<and> scheduled (snd (playMusicFromHandPosition stillLandmarks 1.05 1.06 trackedState)) = []
   \<and> lastNoteTime (snd (playMusicFromHandPosition stillLandmarks 1.05 1.06 trackedState)) = 1"
proof -
  have h: "1.05 - lastNoteTime trackedState \<le> 0.1" by (simp add: trackedState_def)
  have l: "lastFingerPositions trackedState = Some frame1" by (simp add: trackedState_def)
  from rate_limit[OF h, of stillLandmarks "1.06"] h l still_positions still_detect
  show ?thesis by (simp add: trackedState_def state_defs)
qed

text \<open>The same frame more than 0.1 s after the last trigger: the five moved fingers reach
  the playback controller, and the trigger time is stored.\<close>

lemma rate_limit_contrast:
  "scheduled (snd (playMusicFromHandPosition stillLandmarks 1.2 1.21 trackedState))
     = [PlayNotes [''G4'', ''G4'', ''G4'', ''G4'', ''G4'']]
   \<and> lastNoteTime (snd (playMusicFromHandPosition stillLandmarks 1.2 1.21 trackedState)) = 1.21"
proof -
  have n: "scaleNote currentScale (height curledFinger) = ''G4''"
  proof -
    have "\<lfloor>(0.5::real) * 8\<rfloor> = 4" by simp
    then show ?thesis
      by (simp add: scaleNote_def clampedNoteIndex_def noteIndex_def currentScale_def curledFinger_def)
         (simp add: cMajor_def)
  qed
  have syn: "synth trackedState = Some polySynthHandle"
    and lp: "lastFingerPositions trackedState = Some frame1"
    and ln: "lastNoteTime trackedState = 1"
    by (simp_all add: trackedState_def state_defs)
  have idx: "\<forall>i\<in>set [0, 1, 2, 3, 4::nat]. i < length (replicate 5 curledFinger)" by simp
  from playNotesForFingers_sync[OF syn idx] show ?thesis
    by (simp add: playMusicFromHandPosition_def still_positions still_detect lp ln n)
       (simp add: trackedState_def state_defs)
qed

section \<open>An invariant of the reachable states\<close>

text \<open>Whenever \<open>isPlaying\<close> is true a synthesizer is present, and every scheduled start of
  notes carries a non-empty list: the two facts the model of the callbacks relies on.\<close>

lemma wf_initial: "wellFormed (initialState selected)"
  by (simp add: wellFormed_def initialState_def)

lemma wf_select: "wellFormed s \<Longrightarrow> wellFormed (s\<lparr>instrumentSelect := selected\<rparr>)"
  by (simp add: wellFormed_def)

lemma wf_changeInstrument: "wellFormed s \<Longrightarrow> wellFormed (changeInstrument create fallback s)"
  by (auto simp: wellFormed_def changeInstrument_def Let_def releaseNotes_calls record_call_def
      setTimeout_def split: option.splits sum.splits)

lemma wf_stopCamera: "wellFormed s \<Longrightarrow> wellFormed (snd (stopCamera s))"
  by (auto simp: wellFormed_def stopCamera_def record_call_def split: option.splits)

lemma wf_playNotesForFingers:
  "wellFormed s \<Longrightarrow> wellFormed (snd (playNotesForFingers movedFingers fingerPositions s))"
  by (auto simp: wellFormed_def playNotesForFingers_def releaseNotes_calls setTimeout_def
      split: option.splits sum.splits)

lemma wf_playMusic:
  assumes "wellFormed s"
  shows "wellFormed (snd (playMusicFromHandPosition landmarks t1 t2 s))"
proof -
  have upd: "wellFormed (s'\<lparr>lastFingerPositions := x\<rparr>)" if "wellFormed s'" for s' x
    using that by (simp add: wellFormed_def)
  have upd2: "wellFormed (s'\<lparr>lastNoteTime := y, lastFingerPositions := x\<rparr>)" if "wellFormed s'" for s' x y
    using that by (simp add: wellFormed_def)
  have play: "wellFormed s1" if "playNotesForFingers m f s = (e, s1)" for m f e s1
    using wf_playNotesForFingers[OF assms, of m f] that by simp
  show ?thesis
    using assms
    by (auto simp: playMusicFromHandPosition_def intro: upd upd2 play
        split: sum.splits option.splits prod.splits)
qed

lemma wf_noHand: "wellFormed s \<Longrightarrow> wellFormed (noHandDetected s)"
  by (auto simp: wellFormed_def noHandDetected_def releaseNotes_calls split: option.splits)

lemma wf_onHandResults: "wellFormed s \<Longrightarrow> wellFormed (snd (onHandResults results s))"
  by (simp add: onHandResults_def wf_playMusic wf_noHand)

lemma wf_runTimer: "wellFormed s \<Longrightarrow> wellFormed (snd (runTimer running t s))"
  by (auto simp: wellFormed_def runTimer_def play_defs autoReleaseTimer_def testNoteTimer_def Let_def
      split: timer.splits option.splits sum.splits if_splits)

lemma wf_remove: "wellFormed s \<Longrightarrow> wellFormed (s\<lparr>scheduled := remove1 t (scheduled s)\<rparr>)"
  using set_remove1_subset[of t "scheduled s"] by (auto simp: wellFormed_def)

lemma wf_step: "wellFormed s \<Longrightarrow> wellFormed (step e s)"
  by (cases e)
     (simp_all add: wf_changeInstrument wf_select wf_stopCamera wf_onHandResults wf_runTimer wf_remove)

lemma reachable_wellFormed: "reachable s \<Longrightarrow> wellFormed s"
  by (induction rule: reachable.induct) (simp_all add: wf_initial wf_step)

lemma reachable_playing_has_synth: "reachable s \<Longrightarrow> isPlaying s \<Longrightarrow> \<exists>h. synth s = Some h"
  using reachable_wellFormed[of s] by (auto simp: wellFormed_def)

lemma reachable_scheduled_nonempty:
  "reachable s \<Longrightarrow> PlayNotes notesToPlay \<in> set (scheduled s) \<Longrightarrow> notesToPlay \<noteq> []"
  using reachable_wellFormed[of s] by (auto simp: wellFormed_def)

end
